theory Spec2Isabelle
  imports Complex_Main
begin

section \<open>Data model of \<open>sunpy/coordinates/utilities.py\<close>\<close>

text \<open>
  Quantities are modelled over the reals: angles are real numbers of degrees, lengths real
  numbers of kilometres.  A \<open>CartesianRepresentation\<close> is a triple of reals.
\<close>

type_synonym vec3 = "real \<times> real \<times> real"

type_synonym matrix3 = "vec3 \<times> vec3 \<times> vec3"

text \<open>An \<open>astropy.time.Time\<close>; the module reads only its Julian date \<open>.jd\<close>.\<close>

datatype Time = Time (jd: real)

text \<open>
  The \<open>time\<close> argument of the public functions: either already a \<open>Time\<close> instance
  (\<open>isinstance(time, Time)\<close>) or any other value, kept by its text, which is handed to
  \<open>parse_time\<close>.  The default argument \<open>'now'\<close> is \<open>Raw ''now''\<close>.
\<close>

datatype time_arg = TimeObj Time | Raw string

text \<open>The exceptions the collaborators may raise; the module itself raises none.\<close>

datatype error = TimeParseError | EphemerisError | TransformError

text \<open>A \<open>SkyCoord\<close> in the HeliographicStonyhurst frame with its frame attribute.\<close>

record SkyCoord =
  lon :: real
  lat :: real
  radius :: real
  obstime :: Time

datatype EarthLocation = EarthLocation real real real

text \<open>The two target frames the module builds, with their keyword arguments.\<close>

datatype frame =
    PrecessedGeocentric (equinox: Time) (pg_obstime: Time)
  | AltAz (altaz_obstime: Time) (location: EarthLocation)

fun frame_obstime :: "frame \<Rightarrow> Time" where
  "frame_obstime (PrecessedGeocentric eq t) = t"
| "frame_obstime (AltAz t loc) = t"

text \<open>
  The collaborators that are imported by the module and are not part of it, taken as
  parameters:
  \<^item> \<open>now\<close>: the wall clock at the moment of a call (what \<open>parse_time\<close> may consult);
  \<^item> \<open>parse_time\<close>: \<open>Time(parse_time(time))\<close> for a non-\<open>Time\<close> argument, given the clock;
  \<^item> \<open>Time_of_string\<close>: the constructor \<open>Time('...')\<close> on a literal;
  \<^item> \<open>get_body_barycentric\<close>: the ephemeris query;
  \<^item> \<open>icrs_to_hgs\<close>: \<open>SkyCoord(v, frame='icrs', obstime=t).transform_to(HGS)\<close>;
  \<^item> \<open>hgs_to_hcrs\<close>: \<open>coord.hcrs.cartesian\<close>;
  \<^item> \<open>hgs_to_frame\<close>: \<open>coord.transform_to(frame).data.to_cartesian()\<close>;
  \<^item> \<open>sun_detilt_matrix\<close>: the constant \<open>_sun_detilt_matrix\<close> of \<open>.transformations\<close>.
\<close>

record env =
  now :: Time
  parse_time :: "Time \<Rightarrow> string \<Rightarrow> error + Time"
  Time_of_string :: "string \<Rightarrow> Time"
  get_body_barycentric :: "string \<Rightarrow> Time \<Rightarrow> error + vec3"
  icrs_to_hgs :: "vec3 \<Rightarrow> Time \<Rightarrow> error + SkyCoord"
  hgs_to_hcrs :: "SkyCoord \<Rightarrow> error + vec3"
  hgs_to_frame :: "SkyCoord \<Rightarrow> frame \<Rightarrow> error + vec3"
  sun_detilt_matrix :: matrix3

section \<open>Angles and vectors\<close>

text \<open>\<open>Angle(x)\<close> keeps the value as it is; \<open>Longitude(x)\<close> wraps it at 360 degrees.\<close>

definition Angle :: "real \<Rightarrow> real" where
  "Angle x = x"

definition Longitude :: "real \<Rightarrow> real" where
  "Longitude x = x - 360 * of_int \<lfloor>x / 360\<rfloor>"

definition rad_to_deg :: "real \<Rightarrow> real" where
  "rad_to_deg a = a * 180 / pi"

text \<open>The arc tangent of two real arguments, in radians, with values in \<open>(-pi, pi]\<close>.\<close>

definition arctan2 :: "real \<Rightarrow> real \<Rightarrow> real" where
  "arctan2 y x =
    (if 0 < x then arctan (y / x)
     else if x < 0 then (if 0 \<le> y then arctan (y / x) + pi else arctan (y / x) - pi)
     else if 0 < y then pi / 2
     else if y < 0 then - (pi / 2)
     else 0)"

text \<open>
  \<open>np.arctan2(y, x)\<close> as the helper receives it, on doubles.  Just below the negative x axis
  the exact value lies within half a unit in the last place of \<open>-pi\<close>; the function then
  returns the double nearest to \<open>-pi\<close>, which \<open>.to('deg')\<close> turns into exactly \<open>-180.0\<close>.
  This happens at least when \<open>y / x\<close> is at most \<open>2^-53\<close>.  Elsewhere the value is the exact
  one.  (A negative zero \<open>y\<close>, which the reals do not have, gives \<open>-pi\<close> as well.)
\<close>

definition np_arctan2 :: "real \<Rightarrow> real \<Rightarrow> real" where
  "np_arctan2 y x =
    (if x < 0 \<and> y < 0 \<and> y / x \<le> 1 / 2 ^ 53 then - pi else arctan2 y x)"

fun cross :: "vec3 \<Rightarrow> vec3 \<Rightarrow> vec3" where
  "cross (a1, a2, a3) (b1, b2, b3) = (a2 * b3 - a3 * b2, a3 * b1 - a1 * b3, a1 * b2 - a2 * b1)"

fun dot :: "vec3 \<Rightarrow> vec3 \<Rightarrow> real" where
  "dot (a1, a2, a3) (b1, b2, b3) = a1 * b1 + a2 * b2 + a3 * b3"

fun norm_vec :: "vec3 \<Rightarrow> real" where
  "norm_vec (a1, a2, a3) = sqrt (a1 * a1 + a2 * a2 + a3 * a3)"

fun scale_vec :: "real \<Rightarrow> vec3 \<Rightarrow> vec3" where
  "scale_vec k (a1, a2, a3) = (k * a1, k * a2, k * a3)"

text \<open>
  \<open>v /= v.norm()\<close>.  The division is not guarded.  When the norm is zero the vector is the
  zero vector, every component is the floating-point quotient \<open>0/0\<close>, and the result is a
  vector of NaN: this is \<open>None\<close>.  No exception is raised.
\<close>

fun normalized :: "vec3 \<Rightarrow> vec3 option" where
  "normalized (a1, a2, a3) =
    (let n = norm_vec (a1, a2, a3)
     in if n = 0 then None else Some (a1 / n, a2 / n, a3 / n))"

text \<open>\<open>cartesian.transform(matrix)\<close>: the matrix applied to the vector.\<close>

fun transform :: "vec3 \<Rightarrow> matrix3 \<Rightarrow> vec3" where
  "transform v (r1, r2, r3) = (dot r1 v, dot r2 v, dot r3 v)"

text \<open>
  \<open>.represent_as(SphericalRepresentation).lon.to('deg')\<close>: a longitude in degrees.  The wrap
  sends -180 and 180 to the same longitude, so the exact arc tangent serves here.
\<close>

fun spherical_lon :: "vec3 \<Rightarrow> real" where
  "spherical_lon (x, y, z) = Longitude (rad_to_deg (arctan2 y x))"

section \<open>The functions of the module\<close>

definition astropy_time :: "env \<Rightarrow> time_arg \<Rightarrow> error + Time" where
  "astropy_time E time =
    (case time of
       TimeObj t \<Rightarrow> Inr t
     | Raw s \<Rightarrow> parse_time E (now E) s)"

definition get_earth :: "env \<Rightarrow> time_arg \<Rightarrow> error + SkyCoord" where
  "get_earth E time =
    (case astropy_time E time of
       Inl e \<Rightarrow> Inl e
     | Inr obs \<Rightarrow>
        (case get_body_barycentric E ''earth'' obs of
           Inl e \<Rightarrow> Inl e
         | Inr earth_icrs \<Rightarrow>
            (case icrs_to_hgs E earth_icrs obs of
               Inl e \<Rightarrow> Inl e
             | Inr earth \<Rightarrow>
                Inr \<lparr>lon = 0, lat = lat earth, radius = radius earth,
                     obstime = obstime earth\<rparr>)))"

definition get_sun_B0 :: "env \<Rightarrow> time_arg \<Rightarrow> error + real" where
  "get_sun_B0 E time =
    (case get_earth E time of
       Inl e \<Rightarrow> Inl e
     | Inr earth \<Rightarrow> Inr (Angle (lat earth)))"

text \<open>
  The expression
  \<open>c.hcrs.cartesian.transform(_sun_detilt_matrix).represent_as(SphericalRepresentation).lon.to('deg')\<close>,
  which the module evaluates once at import and once in every call of \<open>get_sun_L0\<close>.
\<close>

definition detilted_lon :: "env \<Rightarrow> SkyCoord \<Rightarrow> error + real" where
  "detilted_lon E c =
    (case hgs_to_hcrs E c of
       Inl e \<Rightarrow> Inl e
     | Inr v \<Rightarrow> Inr (spherical_lon (transform v (sun_detilt_matrix E))))"

text \<open>
  The two module-level names bound at import, \<open>_time_first_rotation\<close> and
  \<open>_lon_first_rotation\<close>.  No function of the module assigns to them: the functions take
  them as an argument and return no new value for them.
\<close>

record module_state =
  time_first_rotation :: Time
  lon_first_rotation :: real

definition module_init :: "env \<Rightarrow> error + module_state" where
  "module_init E =
    (let t0 = Time_of_string E ''1853-11-09 21:36''
     in case get_earth E (TimeObj t0) of
          Inl e \<Rightarrow> Inl e
        | Inr earth \<Rightarrow>
           (case detilted_lon E earth of
              Inl e \<Rightarrow> Inl e
            | Inr l \<Rightarrow> Inr \<lparr>time_first_rotation = t0, lon_first_rotation = l\<rparr>))"

definition get_sun_L0 :: "env \<Rightarrow> module_state \<Rightarrow> time_arg \<Rightarrow> error + real" where
  "get_sun_L0 E M time =
    (case astropy_time E time of
       Inl e \<Rightarrow> Inl e
     | Inr obs \<Rightarrow>
        (let sidereal_lon = Longitude ((jd obs - jd (time_first_rotation M)) / 25.38 * 360)
         in case get_earth E (TimeObj obs) of
              Inl e \<Rightarrow> Inl e
            | Inr earth \<Rightarrow>
               (case detilted_lon E earth of
                  Inl e \<Rightarrow> Inl e
                | Inr lon_obstime \<Rightarrow>
                   Inr (Longitude (lon_obstime - lon_first_rotation M - sidereal_lon)))))"

text \<open>
  \<open>_sun_north_angle_to_z\<close>.  The result is \<open>Inl\<close> when a frame transformation raises,
  \<open>Inr None\<close> when the angle is NaN, and \<open>Inr (Some a)\<close> for an angle of \<open>a\<close> degrees.
\<close>

definition sun_north_angle_to_z :: "env \<Rightarrow> frame \<Rightarrow> error + real option" where
  "sun_north_angle_to_z E fr =
    (let sun_center = \<lparr>lon = 0, lat = 0, radius = 0, obstime = frame_obstime fr\<rparr>;
         sun_north = \<lparr>lon = 0, lat = 90, radius = 690000, obstime = frame_obstime fr\<rparr>
     in case hgs_to_frame E sun_center fr of
          Inl e \<Rightarrow> Inl e
        | Inr sky_normal \<Rightarrow>
           (case hgs_to_frame E sun_north fr of
              Inl e \<Rightarrow> Inl e
            | Inr sun_north_v \<Rightarrow>
               (let sun_north_in_sky = cross sun_north_v sky_normal;
                    z_in_sky = cross (0, 0, 1) sky_normal
                in Inr
                  (case normalized sky_normal of
                     None \<Rightarrow> None
                   | Some sky_normal1 \<Rightarrow>
                      (case normalized sun_north_in_sky of
                         None \<Rightarrow> None
                       | Some sun_north_in_sky1 \<Rightarrow>
                          (case normalized z_in_sky of
                             None \<Rightarrow> None
                           | Some z_in_sky1 \<Rightarrow>
                              (let cos_theta = dot sun_north_in_sky1 z_in_sky1;
                                   sin_theta = dot (cross sun_north_in_sky1 z_in_sky1) sky_normal1
                               in Some (Angle (rad_to_deg (np_arctan2 sin_theta cos_theta))))))))))"


definition get_sunearth_distance :: "env \<Rightarrow> time_arg \<Rightarrow> error + real" where
  "get_sunearth_distance E time =
    (case get_earth E time of
       Inl e \<Rightarrow> Inl e
     | Inr earth \<Rightarrow> Inr (radius earth))"


section \<open>The formulas of the specification\<close>

text \<open>
  The Carrington longitude as the specification words it: a sidereal component, wrapped, is
  subtracted from a geometric component, and the difference is wrapped.
\<close>

definition L0_spec :: "real \<Rightarrow> real \<Rightarrow> real \<Rightarrow> real" where
  "L0_spec days_elapsed lon_detilted lon_reference =
    (let sidereal_component = Longitude (days_elapsed / 25.38 * 360);
         geometric_component = lon_detilted - lon_reference
     in Longitude (geometric_component - sidereal_component))"

text \<open>
  The signed angle as the specification words it, from the Sun-centre vector and the
  solar-north vector in the target frame, with plain real division and the arc tangent of
  the numerical library.
\<close>

definition signed_angle_spec :: "vec3 \<Rightarrow> vec3 \<Rightarrow> real" where
  "signed_angle_spec center north =
    (let sky_normal = center;
         projected_north = cross north sky_normal;
         projected_Z = cross (0, 0, 1) sky_normal;
         sky_normal_u = scale_vec (1 / norm_vec sky_normal) sky_normal;
         projected_north_u = scale_vec (1 / norm_vec projected_north) projected_north;
         projected_Z_u = scale_vec (1 / norm_vec projected_Z) projected_Z;
         cos_theta = dot projected_north_u projected_Z_u;
         sin_theta = dot (cross projected_north_u projected_Z_u) sky_normal_u
     in rad_to_deg (np_arctan2 sin_theta cos_theta))"

section \<open>A concrete environment\<close>

text \<open>
  A small world on which the functions can be evaluated: the Earth sits on the x axis at the
  epoch of the first Carrington rotation (Julian date 2398167.4) and on the y axis at any
  other time; the detilt matrix is the identity.
\<close>

definition demo_parse :: "Time \<Rightarrow> string \<Rightarrow> error + Time" where
  "demo_parse clock s =
    (if s = ''now'' then Inr clock
     else if s = ''1853-11-09 21:36'' then Inr (Time 2398167.4)
     else Inl TimeParseError)"

definition demo_env :: env where
  "demo_env =
    \<lparr>now = Time 2458849.5,
     parse_time = demo_parse,
     Time_of_string = (\<lambda>s. Time 2398167.4),
     get_body_barycentric = (\<lambda>b t. if b = ''earth'' then Inr (1, 0, 0) else Inl EphemerisError),
     icrs_to_hgs = (\<lambda>v t. Inr \<lparr>lon = 7, lat = 3, radius = 150000000, obstime = t\<rparr>),
     hgs_to_hcrs = (\<lambda>c. if jd (obstime c) = 2398167.4 then Inr (radius c, 0, 0)
                        else Inr (0, radius c, 0)),
     hgs_to_frame = (\<lambda>c f. Inr (1, 0, lat c / 90)),
     sun_detilt_matrix = ((1, 0, 0), (0, 1, 0), (0, 0, 1))\<rparr>"

text \<open>The same world with solar north on the line of sight.\<close>

definition degenerate_env :: env where
  "degenerate_env = demo_env\<lparr>hgs_to_frame := (\<lambda>c f. Inr (1, 0, 0))\<rparr>"

text \<open>
  The same world with solar north a hair east of the direction opposite to the Z axis:
  the Sun centre at \<open>(1, 0, 0)\<close> and the north point at \<open>(1, -1e-17, -1)\<close>.
\<close>

definition cut_env :: env where
  "cut_env = demo_env\<lparr>hgs_to_frame := (\<lambda>c f. Inr (1, - (lat c / 90) / 10 ^ 17, - (lat c / 90)))\<rparr>"

section \<open>Calls of the public functions over time\<close>








section \<open>Auxiliary facts\<close>

lemma Longitude_range: "0 \<le> Longitude x \<and> Longitude x < 360"
proof -
  have a: "of_int \<lfloor>x / 360\<rfloor> \<le> x / 360" by (rule of_int_floor_le)
  have b: "x / 360 < of_int \<lfloor>x / 360\<rfloor> + 1" by linarith
  show ?thesis unfolding Longitude_def using a b by (simp add: field_simps)
qed

lemma Longitude_0: "Longitude 0 = 0" by (simp add: Longitude_def)

text \<open>Only the zero vector has norm zero, so an unguarded normalisation divides 0 by 0.\<close>

lemma norm_vec_zero_iff: "norm_vec v = 0 \<longleftrightarrow> v = (0, 0, 0)"
proof (cases v)
  case (fields a b c)
  have "a * a + b * b + c * c = 0 \<longleftrightarrow> a = 0 \<and> b = 0 \<and> c = 0"
    by (metis (no_types, opaque_lifting) add_nonneg_eq_0_iff mult_eq_0_iff zero_le_square add_nonneg_nonneg)
  moreover have "0 \<le> a * a + b * b + c * c" by simp
  ultimately show ?thesis using fields by simp
qed

lemma arctan2_range: "- pi < arctan2 y x \<and> arctan2 y x \<le> pi"
proof -
  have l: "- (pi / 2) < arctan (y / x)" by (rule arctan_lbound)
  have u: "arctan (y / x) < pi / 2" by (rule arctan_ubound)
  have p: "0 < pi" by simp
  consider (pos) "0 < x" | (neg_up) "x < 0" "0 \<le> y" | (neg_down) "x < 0" "y < 0"
    | (zero) "x = 0"
    by linarith
  then show ?thesis
  proof cases
    case pos
    then have "arctan2 y x = arctan (y / x)" by (simp add: arctan2_def)
    then show ?thesis using l u p by linarith
  next
    case neg_up
    then have "y / x \<le> 0" by (simp add: divide_nonneg_neg)
    then have "arctan (y / x) \<le> 0" by simp
    moreover have "arctan2 y x = arctan (y / x) + pi" using neg_up by (simp add: arctan2_def)
    ultimately show ?thesis using l p by linarith
  next
    case neg_down
    then have "0 < y / x" by (simp add: divide_neg_neg)
    then have "0 < arctan (y / x)" by simp
    moreover have "arctan2 y x = arctan (y / x) - pi" using neg_down by (simp add: arctan2_def)
    ultimately show ?thesis using u p by linarith
  next
    case zero
    then have "arctan2 y x = pi / 2 \<or> arctan2 y x = - (pi / 2) \<or> arctan2 y x = 0"
      by (simp add: arctan2_def)
    then show ?thesis using p by linarith
  qed
qed

lemma normalized_Some: "norm_vec v \<noteq> 0 \<Longrightarrow> normalized v = Some (scale_vec (1 / norm_vec v) v)"
  by (cases v) (simp add: Let_def)

lemma normalized_if:
  "normalized v = (if norm_vec v = 0 then None else Some (scale_vec (1 / norm_vec v) v))"
  by (cases v) (simp add: Let_def)

lemma cross_scale_self: "cross (scale_vec k v) v = (0, 0, 0)"
  by (cases v) simp

lemma np_arctan2_range: "- pi \<le> np_arctan2 y x \<and> np_arctan2 y x \<le> pi"
proof -
  have p: "0 < pi" by simp
  have "- pi < arctan2 y x \<and> arctan2 y x \<le> pi" by (rule arctan2_range)
  then show ?thesis using p by (simp add: np_arctan2_def)
qed

lemma rad_to_deg_closed_range:
  assumes "- pi \<le> a" "a \<le> pi"
  shows "- 180 \<le> rad_to_deg a \<and> rad_to_deg a \<le> 180"
proof -
  have p: "0 < pi" by simp
  have "- 180 * pi \<le> a * 180" using assms by linarith
  then have lo: "- 180 \<le> a * 180 / pi" using p by (simp add: pos_le_divide_eq)
  have "a * 180 \<le> 180 * pi" using assms by linarith
  then have hi: "a * 180 / pi \<le> 180" using p by (simp add: pos_divide_le_eq)
  show ?thesis using lo hi by (simp add: rad_to_deg_def)
qed

lemma signed_angle_spec_range:
  "- 180 \<le> signed_angle_spec c n \<and> signed_angle_spec c n \<le> 180"
  unfolding signed_angle_spec_def Let_def
  using np_arctan2_range rad_to_deg_closed_range by blast

lemma sun_north_angle_to_z_value:
  assumes "hgs_to_frame E \<lparr>lon = 0, lat = 0, radius = 0, obstime = frame_obstime fr\<rparr> fr = Inr center"
    and "hgs_to_frame E \<lparr>lon = 0, lat = 90, radius = 690000, obstime = frame_obstime fr\<rparr> fr = Inr north"
    and "norm_vec center \<noteq> 0"
    and "norm_vec (cross north center) \<noteq> 0"
    and "norm_vec (cross (0, 0, 1) center) \<noteq> 0"
  shows "sun_north_angle_to_z E fr = Inr (Some (signed_angle_spec center north))"
  using assms
  by (simp add: sun_north_angle_to_z_def signed_angle_spec_def Let_def normalized_Some Angle_def)

lemma signed_angle_spec_at_cut: "signed_angle_spec (1, 0, 0) (1, - (1 / 10 ^ 17), - 1) = - 180"
proof -
  define b :: real where "b = 1 / 10 ^ 17"
  define n :: real where "n = sqrt (1 + b * b)"
  have bpos: "0 < b" by (simp add: b_def)
  have "0 < 1 + b * b" using bpos by (simp add: add_pos_nonneg)
  then have npos: "0 < n" by (simp add: n_def)
  have bsmall: "b \<le> 1 / 2 ^ 53" by (simp add: b_def)
  have sa: "signed_angle_spec (1, 0, 0) (1, - b, - 1)
      = rad_to_deg (np_arctan2 (- (b / n)) (- (1 / n)))"
    by (simp add: signed_angle_spec_def Let_def n_def)
  have ratio: "(- (b / n)) / (- (1 / n)) = b" using npos by simp
  have "np_arctan2 (- (b / n)) (- (1 / n)) = - pi"
    unfolding np_arctan2_def ratio using npos bpos bsmall by simp
  then have "signed_angle_spec (1, 0, 0) (1, - b, - 1) = - 180"
    using sa by (simp add: rad_to_deg_def)
  then show ?thesis by (simp add: b_def)
qed


lemma module_init_Inr:
  assumes "module_init E = Inr M"
  shows "time_first_rotation M = Time_of_string E ''1853-11-09 21:36''
       \<and> (\<exists>earth0 v0. get_earth E (TimeObj (time_first_rotation M)) = Inr earth0
            \<and> hgs_to_hcrs E earth0 = Inr v0
            \<and> detilted_lon E earth0 = Inr (lon_first_rotation M)
            \<and> lon_first_rotation M = spherical_lon (transform v0 (sun_detilt_matrix E)))"
proof -
  let ?t0 = "Time_of_string E ''1853-11-09 21:36''"
  from assms obtain earth0 where e0: "get_earth E (TimeObj ?t0) = Inr earth0"
    by (cases "get_earth E (TimeObj ?t0)") (simp_all add: module_init_def Let_def)
  from assms e0 obtain l where l: "detilted_lon E earth0 = Inr l"
    by (cases "detilted_lon E earth0") (simp_all add: module_init_def Let_def)
  from l obtain v0 where v0: "hgs_to_hcrs E earth0 = Inr v0"
    by (cases "hgs_to_hcrs E earth0") (simp_all add: detilted_lon_def)
  from assms e0 l have M: "M = \<lparr>time_first_rotation = ?t0, lon_first_rotation = l\<rparr>"
    by (simp add: module_init_def Let_def)
  from l v0 have lv: "l = spherical_lon (transform v0 (sun_detilt_matrix E))"
    by (simp add: detilted_lon_def)
  have "get_earth E (TimeObj (time_first_rotation M)) = Inr earth0
            \<and> hgs_to_hcrs E earth0 = Inr v0
            \<and> detilted_lon E earth0 = Inr (lon_first_rotation M)
            \<and> lon_first_rotation M = spherical_lon (transform v0 (sun_detilt_matrix E))"
    using e0 v0 l lv M by simp
  then have "\<exists>earth0 v0. get_earth E (TimeObj (time_first_rotation M)) = Inr earth0
            \<and> hgs_to_hcrs E earth0 = Inr v0
            \<and> detilted_lon E earth0 = Inr (lon_first_rotation M)
            \<and> lon_first_rotation M = spherical_lon (transform v0 (sun_detilt_matrix E))"
    by blast
  moreover have "time_first_rotation M = ?t0" using M by simp
  ultimately show ?thesis by blast
qed

lemma demo_init:
  "module_init demo_env = Inr \<lparr>time_first_rotation = Time 2398167.4, lon_first_rotation = 0\<rparr>"
  by (simp add: module_init_def demo_env_def get_earth_def astropy_time_def detilted_lon_def
        Longitude_def rad_to_deg_def arctan2_def)

section \<open>The Carrington longitude\<close>

text \<open>
  C1.  When the module has been initialised and the calls for the time \<open>t\<close> succeed,
  \<open>get_sun_L0\<close> returns the wrap to [0, 360) of the geometric component minus the sidereal
  component.  The sidereal component is the number of days from the epoch
  \<open>1853-11-09 21:36\<close> to \<open>t\<close>, divided by 25.38, times 360 degrees, wrapped to [0, 360).  The
  geometric component is the longitude of \<open>get_earth(t)\<close> in de-tilted HCRS minus the
  longitude computed in the same way, once, for the epoch.
\<close>

theorem get_sun_L0_formula:
  assumes "module_init E = Inr M"
    and "astropy_time E time = Inr t"
    and "get_earth E (TimeObj t) = Inr earth"
    and "hgs_to_hcrs E earth = Inr v"
  shows "\<exists>earth0 v0.
           get_earth E (TimeObj (Time_of_string E ''1853-11-09 21:36'')) = Inr earth0
         \<and> hgs_to_hcrs E earth0 = Inr v0
         \<and> get_sun_L0 E M time =
             Inr (L0_spec (jd t - jd (Time_of_string E ''1853-11-09 21:36''))
                    (spherical_lon (transform v (sun_detilt_matrix E)))
                    (spherical_lon (transform v0 (sun_detilt_matrix E))))"
proof -
  from module_init_Inr [OF assms(1)] obtain earth0 v0 where
    t0: "time_first_rotation M = Time_of_string E ''1853-11-09 21:36''"
    and e0: "get_earth E (TimeObj (time_first_rotation M)) = Inr earth0"
    and v0: "hgs_to_hcrs E earth0 = Inr v0"
    and l0: "lon_first_rotation M = spherical_lon (transform v0 (sun_detilt_matrix E))"
    by blast
  have "get_sun_L0 E M time =
             Inr (L0_spec (jd t - jd (Time_of_string E ''1853-11-09 21:36''))
                    (spherical_lon (transform v (sun_detilt_matrix E)))
                    (spherical_lon (transform v0 (sun_detilt_matrix E))))"
    using assms(2-4) t0 l0
    by (simp add: get_sun_L0_def L0_spec_def Let_def detilted_lon_def)
  moreover have "get_earth E (TimeObj (Time_of_string E ''1853-11-09 21:36'')) = Inr earth0"
    using e0 t0 by simp
  ultimately show ?thesis using v0 by blast
qed

theorem get_sun_L0_formula_witness:
  "get_sun_L0 demo_env \<lparr>time_first_rotation = Time 2398167.4, lon_first_rotation = 0\<rparr>
      (TimeObj (Time 2398170.5725)) = Inr 45"
proof -
  let ?earth = "\<lparr>lon = 0, lat = 3, radius = 150000000, obstime = Time 2398170.5725\<rparr>"
  have h2: "astropy_time demo_env (TimeObj (Time 2398170.5725)) = Inr (Time 2398170.5725)"
    by (simp add: astropy_time_def)
  have h3: "get_earth demo_env (TimeObj (Time 2398170.5725)) = Inr ?earth"
    by (simp add: get_earth_def astropy_time_def demo_env_def)
  have h4: "hgs_to_hcrs demo_env ?earth = Inr (0, 150000000, 0)"
    by (simp add: demo_env_def)
  have e0: "get_earth demo_env (TimeObj (Time 2398167.4))
      = Inr \<lparr>lon = 0, lat = 3, radius = 150000000, obstime = Time 2398167.4\<rparr>"
    by (simp add: get_earth_def astropy_time_def demo_env_def)
  have c: "Time_of_string demo_env ''1853-11-09 21:36'' = Time 2398167.4"
    "sun_detilt_matrix demo_env = ((1, 0, 0), (0, 1, 0), (0, 0, 1))"
    "hgs_to_hcrs demo_env \<lparr>lon = 0, lat = 3, radius = 150000000, obstime = Time 2398167.4\<rparr>
       = Inr (150000000, 0, 0)"
    by (simp_all add: demo_env_def)
  have v: "L0_spec (2398170.5725 - 2398167.4) (spherical_lon (transform (0, 150000000, 0) ((1, 0, 0), (0, 1, 0), (0, 0, 1))))
      (spherical_lon (transform (150000000, 0, 0) ((1, 0, 0), (0, 1, 0), (0, 0, 1)))) = 45"
    by (simp add: L0_spec_def Longitude_def rad_to_deg_def arctan2_def)
  show ?thesis using get_sun_L0_formula [OF demo_init h2 h3 h4] e0 c v by auto
qed

text \<open>
  C4.  At the calibration epoch the Carrington longitude is zero: whenever the time argument
  normalises to \<open>_time_first_rotation\<close> (the \<open>Time\<close> object itself, or a string the parser
  maps to it), \<open>get_sun_L0\<close> returns 0.
\<close>

theorem get_sun_L0_at_epoch:
  assumes "module_init E = Inr M"
    and "astropy_time E time = Inr (time_first_rotation M)"
  shows "get_sun_L0 E M time = Inr 0"
proof -
  from module_init_Inr [OF assms(1)] obtain earth0 where
    e0: "get_earth E (TimeObj (time_first_rotation M)) = Inr earth0"
    and l0: "detilted_lon E earth0 = Inr (lon_first_rotation M)"
    by blast
  show ?thesis using assms(2) e0 l0 by (simp add: get_sun_L0_def Let_def Longitude_0)
qed

theorem get_sun_L0_at_epoch_witness:
  "get_sun_L0 demo_env \<lparr>time_first_rotation = Time 2398167.4, lon_first_rotation = 0\<rparr>
      (Raw ''1853-11-09 21:36'') = Inr 0"
proof -
  have h: "astropy_time demo_env (Raw ''1853-11-09 21:36'')
      = Inr (time_first_rotation \<lparr>time_first_rotation = Time 2398167.4, lon_first_rotation = 0\<rparr>)"
    by (simp add: astropy_time_def demo_env_def demo_parse_def)
  show ?thesis by (rule get_sun_L0_at_epoch [OF demo_init h])
qed

text \<open>
  C5.  Every value returned by \<open>get_sun_L0\<close> lies in the half-open interval [0, 360).
\<close>

theorem get_sun_L0_range:
  assumes "get_sun_L0 E M time = Inr l"
  shows "0 \<le> l \<and> l < 360"
  using assms Longitude_range
  by (auto simp add: get_sun_L0_def Let_def split: sum.splits)

theorem get_sun_L0_range_witness:
  "get_sun_L0 demo_env \<lparr>time_first_rotation = Time 2398167.4, lon_first_rotation = 0\<rparr>
      (TimeObj (Time 2398180.09)) = Inr 270 \<and> (0::real) \<le> 270 \<and> (270::real) < 360"
proof -
  have h: "get_sun_L0 demo_env \<lparr>time_first_rotation = Time 2398167.4, lon_first_rotation = 0\<rparr>
      (TimeObj (Time 2398180.09)) = Inr 270"
    by (simp add: get_sun_L0_def demo_env_def astropy_time_def get_earth_def detilted_lon_def
         Longitude_def rad_to_deg_def arctan2_def Let_def)
  show ?thesis using h get_sun_L0_range [OF h] by simp
qed

section \<open>The Earth locator and its projections\<close>

text \<open>
  C3.  When the time normalises, the ephemeris answers and the transformation to the
  heliographic frame succeeds, \<open>get_earth\<close> returns a position whose longitude is exactly 0
  and whose latitude, radius and observation time are those of the transformed ephemeris
  position.
\<close>

theorem get_earth_lon_zero:
  assumes "astropy_time E time = Inr obs"
    and "get_body_barycentric E ''earth'' obs = Inr earth_icrs"
    and "icrs_to_hgs E earth_icrs obs = Inr earth"
  shows "\<exists>c. get_earth E time = Inr c \<and> lon c = 0 \<and> lat c = lat earth
           \<and> radius c = radius earth \<and> obstime c = obstime earth"
  using assms by (simp add: get_earth_def)

theorem get_earth_lon_zero_witness:
  "\<exists>c. get_earth demo_env (Raw ''1853-11-09 21:36'') = Inr c \<and> lon c = 0 \<and> lat c = 3
      \<and> radius c = 150000000 \<and> obstime c = Time 2398167.4"
  using get_earth_lon_zero [of demo_env "Raw ''1853-11-09 21:36''" "Time 2398167.4" "(1, 0, 0)"
      "\<lparr>lon = 7, lat = 3, radius = 150000000, obstime = Time 2398167.4\<rparr>"]
  by (simp add: demo_env_def demo_parse_def astropy_time_def)

text \<open>
  C6.  \<open>get_sun_B0\<close> is the latitude component of the result of \<open>get_earth\<close> at the same
  argument, and fails exactly as \<open>get_earth\<close> fails.
\<close>

theorem get_sun_B0_is_lat:
  "get_sun_B0 E time = map_sum (\<lambda>e. e) lat (get_earth E time)"
  by (simp add: get_sun_B0_def Angle_def split: sum.splits)

text \<open>
  C7.  \<open>get_sunearth_distance\<close> is the radial component of the result of \<open>get_earth\<close> at the
  same argument, and fails exactly as \<open>get_earth\<close> fails.
\<close>

theorem get_sunearth_distance_is_radius:
  "get_sunearth_distance E time = map_sum (\<lambda>e. e) radius (get_earth E time)"
  by (simp add: get_sunearth_distance_def split: sum.splits)

section \<open>The signed-angle helper\<close>

text \<open>
  C2.  When both reference points transform into the target frame and none of the three
  vectors has length zero, the helper returns the angle of the specification: the arc tangent
  of \<open>sin_theta\<close> and \<open>cos_theta\<close> computed from the normalised Sun-centre vector and the
  normalised cross products of the solar-north vector and of the Z axis with the Sun-centre
  vector.  The angle is at least -180 and at most 180 degrees.
\<close>

theorem sun_north_angle_to_z_closed_range:
  assumes "hgs_to_frame E \<lparr>lon = 0, lat = 0, radius = 0, obstime = frame_obstime fr\<rparr> fr = Inr center"
    and "hgs_to_frame E \<lparr>lon = 0, lat = 90, radius = 690000, obstime = frame_obstime fr\<rparr> fr = Inr north"
    and "norm_vec center \<noteq> 0"
    and "norm_vec (cross north center) \<noteq> 0"
    and "norm_vec (cross (0, 0, 1) center) \<noteq> 0"
  shows "sun_north_angle_to_z E fr = Inr (Some (signed_angle_spec center north))
         \<and> - 180 \<le> signed_angle_spec center north \<and> signed_angle_spec center north \<le> 180"
  using sun_north_angle_to_z_value [OF assms] signed_angle_spec_range [of center north]
  by simp

theorem sun_north_angle_to_z_closed_range_witness:
  "sun_north_angle_to_z demo_env (AltAz (Time 2459022) (EarthLocation 0 0 0)) = Inr (Some 0)"
proof -
  let ?fr = "AltAz (Time 2459022) (EarthLocation 0 0 0)"
  have h1: "hgs_to_frame demo_env \<lparr>lon = 0, lat = 0, radius = 0, obstime = frame_obstime ?fr\<rparr> ?fr
      = Inr (1, 0, 0)"
    by (simp add: demo_env_def)
  have h2: "hgs_to_frame demo_env \<lparr>lon = 0, lat = 90, radius = 690000, obstime = frame_obstime ?fr\<rparr> ?fr
      = Inr (1, 0, 1)"
    by (simp add: demo_env_def)
  have h3: "norm_vec (1, 0, 0) \<noteq> 0" by simp
  have h4: "norm_vec (cross (1, 0, 1) (1, 0, 0)) \<noteq> 0" by simp
  have h5: "norm_vec (cross (0, 0, 1) (1, 0, 0)) \<noteq> 0" by simp
  have v: "signed_angle_spec (1, 0, 0) (1, 0, 1) = 0"
    by (simp add: signed_angle_spec_def rad_to_deg_def np_arctan2_def arctan2_def)
  show ?thesis using sun_north_angle_to_z_closed_range [OF h1 h2 h3 h4 h5] v by simp
qed

text \<open>
  With the Sun centre at \<open>(1, 0, 0)\<close> and the north point at \<open>(1, -1e-17, -1)\<close> in the target
  frame, no vector has length zero and the helper returns exactly -180 degrees, which is
  outside the half-open range from -180 to 180.
\<close>

theorem sun_north_angle_to_z_minus_180:
  "sun_north_angle_to_z cut_env (AltAz (Time 2459022) (EarthLocation 0 0 0))
     = Inr (Some (- 180))"
proof -
  let ?fr = "AltAz (Time 2459022) (EarthLocation 0 0 0)"
  have h1: "hgs_to_frame cut_env \<lparr>lon = 0, lat = 0, radius = 0, obstime = frame_obstime ?fr\<rparr> ?fr
      = Inr (1, 0, 0)"
    by (simp add: cut_env_def)
  have h2: "hgs_to_frame cut_env \<lparr>lon = 0, lat = 90, radius = 690000, obstime = frame_obstime ?fr\<rparr> ?fr
      = Inr (1, - (1 / 10 ^ 17), - 1)"
    by (simp add: cut_env_def)
  have h3: "norm_vec (1, 0, 0) \<noteq> 0" by simp
  have h4: "norm_vec (cross (1, - (1 / 10 ^ 17), - 1) (1, 0, 0)) \<noteq> 0"
    by (simp add: add_pos_nonneg)
  have h5: "norm_vec (cross (0, 0, 1) (1, 0, 0)) \<noteq> 0" by simp
  show ?thesis
    using sun_north_angle_to_z_value [OF h1 h2 h3 h4 h5] signed_angle_spec_at_cut by simp
qed

text \<open>
  C8.  The normalisations of the helper are not guarded.  When the three vectors are nonzero
  the helper returns an angle.  When the solar-north vector is a multiple of the Sun-centre
  vector the helper returns NaN.  It returns NaN exactly when one of the three vectors has
  length zero, and it never raises once both transformations have succeeded.
\<close>

theorem sun_north_angle_to_z_unguarded:
  assumes "hgs_to_frame E \<lparr>lon = 0, lat = 0, radius = 0, obstime = frame_obstime fr\<rparr> fr = Inr center"
    and "hgs_to_frame E \<lparr>lon = 0, lat = 90, radius = 690000, obstime = frame_obstime fr\<rparr> fr = Inr north"
  shows "(norm_vec center \<noteq> 0 \<and> norm_vec (cross north center) \<noteq> 0
            \<and> norm_vec (cross (0, 0, 1) center) \<noteq> 0
          \<longrightarrow> (\<exists>a. sun_north_angle_to_z E fr = Inr (Some a)))
       \<and> (north = scale_vec k center \<longrightarrow> sun_north_angle_to_z E fr = Inr None)
       \<and> (sun_north_angle_to_z E fr = Inr None
            \<longleftrightarrow> norm_vec center = 0 \<or> norm_vec (cross north center) = 0
                \<or> norm_vec (cross (0, 0, 1) center) = 0)
       \<and> (\<forall>e. sun_north_angle_to_z E fr \<noteq> Inl e)"
proof -
  have iff: "sun_north_angle_to_z E fr = Inr None
            \<longleftrightarrow> norm_vec center = 0 \<or> norm_vec (cross north center) = 0
                \<or> norm_vec (cross (0, 0, 1) center) = 0"
    using assms
    by (simp add: sun_north_angle_to_z_def Let_def normalized_if)
  have noexc: "\<forall>e. sun_north_angle_to_z E fr \<noteq> Inl e"
    using assms by (simp add: sun_north_angle_to_z_def Let_def)
  have ok: "norm_vec center \<noteq> 0 \<and> norm_vec (cross north center) \<noteq> 0
            \<and> norm_vec (cross (0, 0, 1) center) \<noteq> 0
          \<longrightarrow> (\<exists>a. sun_north_angle_to_z E fr = Inr (Some a))"
    using assms by (simp add: sun_north_angle_to_z_def Let_def normalized_Some)
  have deg: "north = scale_vec k center \<longrightarrow> sun_north_angle_to_z E fr = Inr None"
  proof
    assume "north = scale_vec k center"
    then have "norm_vec (cross north center) = 0" by (simp add: cross_scale_self)
    then show "sun_north_angle_to_z E fr = Inr None" using iff by simp
  qed
  show ?thesis using iff noexc ok deg by blast
qed

theorem sun_north_angle_to_z_unguarded_witness:
  "sun_north_angle_to_z degenerate_env (PrecessedGeocentric (Time 2459022) (Time 2459022))
     = Inr None
   \<and> (\<exists>a. sun_north_angle_to_z demo_env (PrecessedGeocentric (Time 2459022) (Time 2459022))
          = Inr (Some a))"
proof -
  let ?fr = "PrecessedGeocentric (Time 2459022) (Time 2459022)"
  let ?c = "\<lparr>lon = 0, lat = 0, radius = 0, obstime = frame_obstime ?fr\<rparr>"
  let ?n = "\<lparr>lon = 0, lat = 90, radius = 690000, obstime = frame_obstime ?fr\<rparr>"
  have h1: "hgs_to_frame degenerate_env ?c ?fr = Inr (1, 0, 0)"
    by (simp add: degenerate_env_def)
  have h2: "hgs_to_frame degenerate_env ?n ?fr = Inr (1, 0, 0)"
    by (simp add: degenerate_env_def)
  have h3: "(1, 0, 0) = scale_vec 1 (1, 0, 0)" by simp
  have g1: "hgs_to_frame demo_env ?c ?fr = Inr (1, 0, 0)"
    by (simp add: demo_env_def)
  have g2: "hgs_to_frame demo_env ?n ?fr = Inr (1, 0, 1)"
    by (simp add: demo_env_def)
  have g3: "norm_vec (1, 0, 0) \<noteq> 0 \<and> norm_vec (cross (1, 0, 1) (1, 0, 0)) \<noteq> 0
            \<and> norm_vec (cross (0, 0, 1) (1, 0, 0)) \<noteq> 0"
    by simp
  have a: "sun_north_angle_to_z degenerate_env ?fr = Inr None"
    using sun_north_angle_to_z_unguarded [OF h1 h2, of 1] h3 by blast
  have b: "\<exists>a. sun_north_angle_to_z demo_env ?fr = Inr (Some a)"
    using sun_north_angle_to_z_unguarded [OF g1 g2, of 1] g3 by blast
  show ?thesis using a b by simp
qed

section \<open>Time normalisation and determinism\<close>








text \<open>
  C10.  A \<open>Time\<close> instance passes through the time normalisation unchanged, whatever the
  parser and the clock are, so the parser is not consulted; every other argument is the
  parser's result, errors included.
\<close>

theorem astropy_time_passthrough:
  "astropy_time E (TimeObj t) = Inr t
   \<and> astropy_time (E\<lparr>parse_time := p, now := c\<rparr>) (TimeObj t) = astropy_time E (TimeObj t)
   \<and> astropy_time E (Raw s) = parse_time E (now E) s"
  by (simp add: astropy_time_def)

end
